theory Spec2Isabelle
  imports Main "HOL-Library.Word"
begin

section \<open>Data model of BarcodeReader.cpp\<close>

text \<open>
  The file is the WebAssembly wrapper of a barcode reader. Its four exported functions take
  C++ \<open>int\<close>s (32 bits on wasm32) for addresses, lengths and sizes; a pointer of the linear
  memory is a 32-bit address too, so \<open>reinterpret_cast\<close> from \<open>int\<close> leaves the bits alone.
\<close>

type_synonym c_int = "32 word"
type_synonym ptr = "32 word"
type_synonym byte = "8 word"

text \<open>
  \<open>PointI\<close> and \<open>Position\<close> (an array of four points with compile-time indices) belong to
  the decoding library. A value-initialised point is (0, 0).
\<close>

datatype PointI = PointI (pt_x: c_int) (pt_y: c_int)

datatype Position = Quadrilateral PointI PointI PointI PointI

datatype index = index0 | index1 | index2 | index3

fun at :: "Position \<Rightarrow> index \<Rightarrow> PointI" where
  "at (Quadrilateral a b c d) index0 = a"
| "at (Quadrilateral a b c d) index1 = b"
| "at (Quadrilateral a b c d) index2 = c"
| "at (Quadrilateral a b c d) index3 = d"

definition Position_default :: Position where
  "Position_default =
     Quadrilateral (PointI 0 0) (PointI 0 0) (PointI 0 0) (PointI 0 0)"

text \<open>
  \<open>emscripten::val\<close>: the only JavaScript values this file builds are the default-constructed
  one (\<open>undefined\<close>) and a fresh \<open>Uint8Array\<close>.
\<close>

datatype val = Undefined | Uint8Array "byte list"

text \<open>\<open>struct ReadResult\<close>, lines 21 to 29, with its default member initialisers.\<close>

record ReadResult =
  format :: string
  "text" :: string
  bytes :: val
  error :: string
  position :: Position
  symbologyIdentifier :: string

definition ReadResult_default :: ReadResult where
  "ReadResult_default =
     \<lparr>format = '''', text = '''', bytes = Undefined, error = '''',
      position = Position_default, symbologyIdentifier = ''''\<rparr>"

text \<open>
  The library's \<open>ImageView\<close> as the file constructs it: data pointer, width, height and
  pixel format. Only the two pixel formats the file names are listed.
\<close>

datatype ImageFormat = Lum | RGBA

record ImageView =
  iv_data :: ptr
  iv_width :: c_int
  iv_height :: c_int
  iv_format :: ImageFormat

text \<open>
  Modelled from the spec: the library's \<open>ReaderOptions\<close> class is declared in ReadBarcode.h,
  which is not part of the sources at hand. The spec's data model gives it the four
  \<open>try*\<close> booleans, the format set and an integer symbol cap; each setter the file calls
  overwrites the field of its name.
\<close>

record 'fs ReaderOptions =
  tryHarder :: bool
  tryRotate :: bool
  tryInvert :: bool
  tryDownscale :: bool
  formats :: 'fs
  maxNumberOfSymbols :: c_int

definition setTryHarder :: "bool \<Rightarrow> 'fs ReaderOptions \<Rightarrow> 'fs ReaderOptions" where
  "setTryHarder v opts = opts\<lparr>tryHarder := v\<rparr>"

definition setTryRotate :: "bool \<Rightarrow> 'fs ReaderOptions \<Rightarrow> 'fs ReaderOptions" where
  "setTryRotate v opts = opts\<lparr>tryRotate := v\<rparr>"

definition setTryInvert :: "bool \<Rightarrow> 'fs ReaderOptions \<Rightarrow> 'fs ReaderOptions" where
  "setTryInvert v opts = opts\<lparr>tryInvert := v\<rparr>"

definition setTryDownscale :: "bool \<Rightarrow> 'fs ReaderOptions \<Rightarrow> 'fs ReaderOptions" where
  "setTryDownscale v opts = opts\<lparr>tryDownscale := v\<rparr>"

definition setFormats :: "'fs \<Rightarrow> 'fs ReaderOptions \<Rightarrow> 'fs ReaderOptions" where
  "setFormats v opts = opts\<lparr>formats := v\<rparr>"

definition setMaxNumberOfSymbols :: "c_int \<Rightarrow> 'fs ReaderOptions \<Rightarrow> 'fs ReaderOptions" where
  "setMaxNumberOfSymbols v opts = opts\<lparr>maxNumberOfSymbols := v\<rparr>"

text \<open>
  A decoded symbol as the loop of lines 51 to 61 reads it, one field per accessor:
  \<open>format()\<close>, \<open>text()\<close>, \<open>bytes()\<close>, \<open>error()\<close>, \<open>position()\<close>, \<open>symbologyIdentifier()\<close>.
  The format and error types are the library's and stay abstract.
\<close>

record ('f, 'e) Barcode =
  barcode_format :: 'f
  barcode_text :: string
  barcode_bytes :: "byte list"
  barcode_error :: 'e
  barcode_position :: Position
  barcode_symbologyIdentifier :: string

section \<open>Exceptions and the external collaborators\<close>

text \<open>
  A C++ exception is either derived from \<open>std::exception\<close>, and then carries its \<open>what()\<close>
  message, or anything else, which only \<open>catch (...)\<close> handles.
\<close>

datatype exn = std_exception string | unknown_exception

text \<open>
  The functions of the decoding library and of the image codec that the file calls are
  parameters of the model. A call that throws returns \<open>Inl\<close>; the codec returns \<open>None\<close> for
  a null pointer and otherwise the buffer it allocated with the width, height and channel
  count it wrote through its out-parameters.
\<close>

record ('fs, 'f, 'e) extern =
  new_ReaderOptions :: "'fs ReaderOptions"
  BarcodeFormatsFromString :: "string \<Rightarrow> exn + 'fs"
  ReadBarcodes :: "ImageView \<Rightarrow> 'fs ReaderOptions \<Rightarrow> exn + ('f, 'e) Barcode list"
  ToString_format :: "'f \<Rightarrow> string"
  ToString_error :: "'e \<Rightarrow> string"
  stbi_load_from_memory :: "ptr \<Rightarrow> c_int \<Rightarrow> c_int \<Rightarrow> (ptr \<times> c_int \<times> c_int \<times> c_int) option"

text \<open>
  What a call does to the outside world, in the order it happens: asking the codec to parse
  a compressed image, running the decode engine on an image view with options, and
  releasing the codec's buffer.
\<close>

datatype 'fs event =
    stbi_load_call ptr c_int c_int
  | ReadBarcodes_call ImageView "'fs ReaderOptions"
  | stbi_image_free_call ptr

section \<open>readBarcodes\<close>

text \<open>
  Line 56: \<open>typed_memory_view(n, p)\<close> is a view of \<open>n\<close> bytes starting at \<open>p\<close>, and
  \<open>Uint8Array.new_\<close> of a view allocates a new array holding a copy of the viewed bytes.
  The constructor itself is the global that line 49 looks up once per thread.
\<close>

definition typed_memory_view :: "nat \<Rightarrow> byte list \<Rightarrow> byte list" where
  "typed_memory_view n bs = take n bs"

definition Uint8Array_new :: "byte list \<Rightarrow> val" where
  "Uint8Array_new view = Uint8Array view"

text \<open>The range-for loop of lines 51 to 61, appending one record per symbol.\<close>

fun push_back_loop ::
  "('fs, 'f, 'e) extern \<Rightarrow> ('f, 'e) Barcode list \<Rightarrow> ReadResult list \<Rightarrow> ReadResult list" where
  "push_back_loop ext [] readResults = readResults"
| "push_back_loop ext (barcode # rest) readResults =
     push_back_loop ext rest
       (readResults @
        [\<lparr>format = ToString_format ext (barcode_format barcode),
          text = barcode_text barcode,
          bytes = Uint8Array_new
            (typed_memory_view (length (barcode_bytes barcode)) (barcode_bytes barcode)),
          error = ToString_error ext (barcode_error barcode),
          position = barcode_position barcode,
          symbologyIdentifier = barcode_symbologyIdentifier barcode\<rparr>])"

text \<open>
  The \<open>try\<close> block, lines 35 to 63. The result is the value returned or the exception
  thrown, together with the events of the call. The format string is parsed at line 40,
  after the four \<open>try*\<close> setters and before the engine runs at line 44; \<open>reserve\<close> at
  line 47 only sets a capacity.
\<close>

definition readBarcodes_try ::
  "('fs, 'f, 'e) extern \<Rightarrow> ImageView \<Rightarrow> bool \<Rightarrow> string \<Rightarrow> c_int
     \<Rightarrow> (exn + ReadResult list) \<times> 'fs event list" where
  "readBarcodes_try ext iv tryHarder_arg format_arg maxSymbols =
     (let opts = new_ReaderOptions ext;
          opts = setTryHarder tryHarder_arg opts;
          opts = setTryRotate tryHarder_arg opts;
          opts = setTryInvert tryHarder_arg opts;
          opts = setTryDownscale tryHarder_arg opts
      in case BarcodeFormatsFromString ext format_arg of
           Inl e \<Rightarrow> (Inl e, [])
         | Inr fs \<Rightarrow>
             (let opts = setFormats fs opts;
                  opts = setMaxNumberOfSymbols maxSymbols opts
              in case ReadBarcodes ext iv opts of
                   Inl e \<Rightarrow> (Inl e, [ReadBarcodes_call iv opts])
                 | Inr barcodes \<Rightarrow>
                     (Inr (push_back_loop ext barcodes []), [ReadBarcodes_call iv opts])))"

text \<open>
  The two handlers, lines 64 to 68. The braced initialiser gives format, text, bytes and
  error; position and symbologyIdentifier keep their default member initialisers. The
  \<open>return\<close> of line 69 is never reached, since the block and both handlers return.
\<close>

definition readBarcodes ::
  "('fs, 'f, 'e) extern \<Rightarrow> ImageView \<Rightarrow> bool \<Rightarrow> string \<Rightarrow> c_int
     \<Rightarrow> (exn + ReadResult list) \<times> 'fs event list" where
  "readBarcodes ext iv tryHarder_arg format_arg maxSymbols =
     (case readBarcodes_try ext iv tryHarder_arg format_arg maxSymbols of
        (Inr readResults, evs) \<Rightarrow> (Inr readResults, evs)
      | (Inl (std_exception what), evs) \<Rightarrow>
          (Inr [\<lparr>format = '''', text = '''', bytes = Undefined, error = what,
                 position = Position_default, symbologyIdentifier = ''''\<rparr>], evs)
      | (Inl unknown_exception, evs) \<Rightarrow>
          (Inr [\<lparr>format = '''', text = '''', bytes = Undefined, error = ''Unknown error'',
                 position = Position_default, symbologyIdentifier = ''''\<rparr>], evs))"

section \<open>The four exported functions\<close>

text \<open>
  Modelled from the spec: \<open>FirstOrDefault\<close> is a helper of the decoding library that the
  single-result functions call; its definition is not part of the sources at hand. The spec
  describes it as taking the first element, or a zero-valued record with empty error when
  the sequence is empty.
\<close>

definition FirstOrDefault :: "ReadResult list \<Rightarrow> ReadResult" where
  "FirstOrDefault container =
     (case container of [] \<Rightarrow> ReadResult_default | front # _ \<Rightarrow> front)"

text \<open>
  Lines 73 to 84. The codec is asked for one channel. A null buffer returns the load
  failure at once; otherwise the luminance view goes to \<open>readBarcodes\<close> and the buffer's
  deleter runs when the function leaves.
\<close>

definition readBarcodesFromImage ::
  "('fs, 'f, 'e) extern \<Rightarrow> c_int \<Rightarrow> c_int \<Rightarrow> bool \<Rightarrow> string \<Rightarrow> c_int
     \<Rightarrow> (exn + ReadResult list) \<times> 'fs event list" where
  "readBarcodesFromImage ext bufferPtr bufferLength tryHarder_arg format_arg maxSymbols =
     (case stbi_load_from_memory ext bufferPtr bufferLength 1 of
        None \<Rightarrow>
          (Inr [\<lparr>format = '''', text = '''', bytes = Undefined,
                 error = ''Error loading image'',
                 position = Position_default, symbologyIdentifier = ''''\<rparr>],
           [stbi_load_call bufferPtr bufferLength 1])
      | Some (buffer, width, height, channels) \<Rightarrow>
          (case readBarcodes ext
                  \<lparr>iv_data = buffer, iv_width = width, iv_height = height, iv_format = Lum\<rparr>
                  tryHarder_arg format_arg maxSymbols of
             (r, evs) \<Rightarrow>
               (r, [stbi_load_call bufferPtr bufferLength 1] @ evs @
                   [stbi_image_free_call buffer])))"

text \<open>Lines 87 to 91.\<close>

definition readBarcodeFromImage ::
  "('fs, 'f, 'e) extern \<Rightarrow> c_int \<Rightarrow> c_int \<Rightarrow> bool \<Rightarrow> string
     \<Rightarrow> (exn + ReadResult) \<times> 'fs event list" where
  "readBarcodeFromImage ext bufferPtr bufferLength tryHarder_arg format_arg =
     (case readBarcodesFromImage ext bufferPtr bufferLength tryHarder_arg format_arg 1 of
        (Inl e, evs) \<Rightarrow> (Inl e, evs)
      | (Inr rs, evs) \<Rightarrow> (Inr (FirstOrDefault rs), evs))"

text \<open>
  Lines 94 to 98. The view is built from the arguments as they come. (In the file as it
  stands the parameter lists of lines 94 and 101 lack their closing parenthesis and line 83
  its semicolon; the model follows the bodies as written.)
\<close>

definition readBarcodesFromPixmap ::
  "('fs, 'f, 'e) extern \<Rightarrow> c_int \<Rightarrow> c_int \<Rightarrow> c_int \<Rightarrow> bool \<Rightarrow> string \<Rightarrow> c_int
     \<Rightarrow> (exn + ReadResult list) \<times> 'fs event list" where
  "readBarcodesFromPixmap ext bufferPtr imgWidth imgHeight tryHarder_arg format_arg maxSymbols =
     readBarcodes ext
       \<lparr>iv_data = bufferPtr, iv_width = imgWidth, iv_height = imgHeight, iv_format = RGBA\<rparr>
       tryHarder_arg format_arg maxSymbols"

text \<open>Lines 101 to 105.\<close>

definition readBarcodeFromPixmap ::
  "('fs, 'f, 'e) extern \<Rightarrow> c_int \<Rightarrow> c_int \<Rightarrow> c_int \<Rightarrow> bool \<Rightarrow> string
     \<Rightarrow> (exn + ReadResult) \<times> 'fs event list" where
  "readBarcodeFromPixmap ext bufferPtr imgWidth imgHeight tryHarder_arg format_arg =
     (case readBarcodesFromPixmap ext bufferPtr imgWidth imgHeight tryHarder_arg format_arg 1 of
        (Inl e, evs) \<Rightarrow> (Inl e, evs)
      | (Inr rs, evs) \<Rightarrow> (Inr (FirstOrDefault rs), evs))"

section \<open>The value objects of the binding\<close>

text \<open>
  Lines 120 to 126: a point crosses the boundary as an object with fields \<open>x\<close> and \<open>y\<close>, a
  position as an object whose four fields read the array at indices 0, 1, 2 and 3.
\<close>

record Point_object =
  obj_x :: c_int
  obj_y :: c_int

record Position_object =
  topLeft :: Point_object
  topRight :: Point_object
  bottomRight :: Point_object
  bottomLeft :: Point_object

definition Point_toJS :: "PointI \<Rightarrow> Point_object" where
  "Point_toJS p = \<lparr>obj_x = pt_x p, obj_y = pt_y p\<rparr>"

definition Position_toJS :: "Position \<Rightarrow> Position_object" where
  "Position_toJS p =
     \<lparr>topLeft = Point_toJS (at p index0),
      topRight = Point_toJS (at p index1),
      bottomRight = Point_toJS (at p index2),
      bottomLeft = Point_toJS (at p index3)\<rparr>"

section \<open>Auxiliary definitions for the statements\<close>

text \<open>
  The options object as lines 35 to 41 have built it when line 44 runs, for a format string
  that parsed to \<open>fs\<close>: the six setters applied in the order of the source to a
  default-constructed object.
\<close>

definition engine_options ::
  "('fs, 'f, 'e) extern \<Rightarrow> bool \<Rightarrow> 'fs \<Rightarrow> c_int \<Rightarrow> 'fs ReaderOptions" where
  "engine_options ext tryHarder_arg fs maxSymbols =
     setMaxNumberOfSymbols maxSymbols
       (setFormats fs
         (setTryDownscale tryHarder_arg
           (setTryInvert tryHarder_arg
             (setTryRotate tryHarder_arg
               (setTryHarder tryHarder_arg (new_ReaderOptions ext))))))"

text \<open>
  Modelled from the spec: \<open>BarcodeFormatsFromString\<close> is the library's parser of the format
  filter; its definition is not part of the sources at hand. The spec describes the filter
  as an empty-or-comma-separated list of format names, where the empty string means all
  supported formats and an unrecognised name fails with \<open>InvalidFormatError\<close>. The set of
  supported names is a parameter; the exception is a typed one and its message is the
  error's name.
\<close>

fun split_names :: "string \<Rightarrow> string list" where
  "split_names [] = [[]]"
| "split_names (c # cs) =
     (if c = CHR '','' then [] # split_names cs
      else (case split_names cs of [] \<Rightarrow> [[c]] | n # ns \<Rightarrow> (c # n) # ns))"

definition BarcodeFormatsFromString_spec :: "string set \<Rightarrow> string \<Rightarrow> exn + string set" where
  "BarcodeFormatsFromString_spec supported str =
     (if str = [] then Inr supported
      else if list_all (\<lambda>n. n \<in> supported) (split_names str)
        then Inr (set (split_names str))
        else Inl (std_exception ''InvalidFormatError''))"

text \<open>
  Stub collaborators for the concrete instances below: a parser that accepts every string
  as one format name, an engine that finds nothing, and a codec that fails on a zero-length
  buffer and otherwise reports a 1 by 1 image at the address it was given.
\<close>

definition stub_extern :: "(string set, string, string) extern" where
  "stub_extern =
     \<lparr>new_ReaderOptions =
        \<lparr>tryHarder = True, tryRotate = True, tryInvert = True, tryDownscale = True,
         formats = {}, maxNumberOfSymbols = 255\<rparr>,
      BarcodeFormatsFromString = (\<lambda>s. Inr {s}),
      ReadBarcodes = (\<lambda>iv opts. Inr []),
      ToString_format = (\<lambda>f. f),
      ToString_error = (\<lambda>e. e),
      stbi_load_from_memory = (\<lambda>p n c. if n = 0 then None else Some (p, 1, 1, c))\<rparr>"

definition stub_view :: ImageView where
  "stub_view = \<lparr>iv_data = 1024, iv_width = 10, iv_height = 10, iv_format = RGBA\<rparr>"

definition stub_options :: "bool \<Rightarrow> string \<Rightarrow> c_int \<Rightarrow> string set ReaderOptions" where
  "stub_options b s n =
     \<lparr>tryHarder = b, tryRotate = b, tryInvert = b, tryDownscale = b,
      formats = {s}, maxNumberOfSymbols = n\<rparr>"

definition stub_symbols :: "(string, string) Barcode list" where
  "stub_symbols =
     [\<lparr>barcode_format = ''EAN-13'', barcode_text = ''4006381333931'',
       barcode_bytes = [0x34, 0x30], barcode_error = ''ChecksumError'',
       barcode_position =
         Quadrilateral (PointI 1 2) (PointI 9 2) (PointI 9 5) (PointI 1 5),
       barcode_symbologyIdentifier = '']E0''\<rparr>,
      \<lparr>barcode_format = ''QRCode'', barcode_text = ''abc'',
       barcode_bytes = [0x01, 0x02, 0x03], barcode_error = '''',
       barcode_position =
         Quadrilateral (PointI 10 20) (PointI 30 20) (PointI 30 40) (PointI 10 40),
       barcode_symbologyIdentifier = '']Q1''\<rparr>]"

text \<open>The collaborators \<open>ext\<close> with the parser replaced by the one modelled from the spec.\<close>

definition with_spec_parser ::
  "string set \<Rightarrow> (string set, 'f, 'e) extern \<Rightarrow> (string set, 'f, 'e) extern" where
  "with_spec_parser supported ext =
     ext\<lparr>BarcodeFormatsFromString := BarcodeFormatsFromString_spec supported\<rparr>"



section \<open>The marshalling loop\<close>

lemma push_back_loop_length:
  "length (push_back_loop ext bs acc) = length acc + length bs"
  by (induction bs arbitrary: acc) simp_all

lemma push_back_loop_nth_acc:
  "i < length acc \<Longrightarrow> push_back_loop ext bs acc ! i = acc ! i"
  by (induction bs arbitrary: acc) (simp_all add: nth_append)

lemma push_back_loop_nth:
  "i < length bs \<Longrightarrow>
   push_back_loop ext bs acc ! (length acc + i) =
     \<lparr>format = ToString_format ext (barcode_format (bs ! i)),
      text = barcode_text (bs ! i),
      bytes = Uint8Array (barcode_bytes (bs ! i)),
      error = ToString_error ext (barcode_error (bs ! i)),
      position = barcode_position (bs ! i),
      symbologyIdentifier = barcode_symbologyIdentifier (bs ! i)\<rparr>"
proof (induction bs arbitrary: acc i)
  case Nil
  then show ?case by simp
next
  case (Cons b bs)
  show ?case
  proof (cases i)
    case 0
    then show ?thesis
      by (simp add: push_back_loop_nth_acc Uint8Array_new_def typed_memory_view_def)
  next
    case (Suc j)
    with Cons.prems have j: "j < length bs" by simp
    let ?acc = "acc @ push_back_loop ext [b] []"
    have "push_back_loop ext (b # bs) acc ! (length acc + i) =
          push_back_loop ext bs ?acc ! (length ?acc + j)"
      using Suc by simp
    also note Cons.IH [OF j, of ?acc]
    finally show ?thesis using Suc by simp
  qed
qed

section \<open>The three outcomes of readBarcodes\<close>

lemma readBarcodes_try_parse_throws:
  "BarcodeFormatsFromString ext f = Inl e \<Longrightarrow> readBarcodes_try ext iv th f ms = (Inl e, [])"
  by (simp add: readBarcodes_try_def Let_def)

lemma readBarcodes_try_parse_ok:
  "BarcodeFormatsFromString ext f = Inr fs \<Longrightarrow>
   readBarcodes_try ext iv th f ms =
     (case ReadBarcodes ext iv (engine_options ext th fs ms) of
        Inl e \<Rightarrow> Inl e
      | Inr bs \<Rightarrow> Inr (push_back_loop ext bs []),
      [ReadBarcodes_call iv (engine_options ext th fs ms)])"
  by (simp add: readBarcodes_try_def Let_def engine_options_def split: sum.splits)

lemma readBarcodes_parse_throws:
  "BarcodeFormatsFromString ext f = Inl e \<Longrightarrow>
   readBarcodes ext iv th f ms =
     (Inr [\<lparr>format = '''', text = '''', bytes = Undefined,
            error = (case e of std_exception what \<Rightarrow> what
                     | unknown_exception \<Rightarrow> ''Unknown error''),
            position = Position_default, symbologyIdentifier = ''''\<rparr>], [])"
  by (simp add: readBarcodes_def readBarcodes_try_parse_throws split: exn.splits)

lemma readBarcodes_parse_ok:
  "BarcodeFormatsFromString ext f = Inr fs \<Longrightarrow>
   readBarcodes ext iv th f ms =
     (case ReadBarcodes ext iv (engine_options ext th fs ms) of
        Inl (std_exception what) \<Rightarrow>
          Inr [\<lparr>format = '''', text = '''', bytes = Undefined, error = what,
                position = Position_default, symbologyIdentifier = ''''\<rparr>]
      | Inl unknown_exception \<Rightarrow>
          Inr [\<lparr>format = '''', text = '''', bytes = Undefined, error = ''Unknown error'',
                position = Position_default, symbologyIdentifier = ''''\<rparr>]
      | Inr bs \<Rightarrow> Inr (push_back_loop ext bs []),
      [ReadBarcodes_call iv (engine_options ext th fs ms)])"
  by (simp add: readBarcodes_def readBarcodes_try_parse_ok split: sum.splits exn.splits)

text \<open>An engine call among the events of \<open>readBarcodes\<close> pins down how the call went.\<close>

lemma readBarcodes_event:
  assumes "ReadBarcodes_call iv' opts \<in> set (snd (readBarcodes ext iv th f ms))"
  obtains fs where "BarcodeFormatsFromString ext f = Inr fs"
    and "iv' = iv" and "opts = engine_options ext th fs ms"
proof (cases "BarcodeFormatsFromString ext f")
  case (Inl e)
  with assms show ?thesis by (simp add: readBarcodes_parse_throws)
next
  case (Inr fs)
  with assms that show ?thesis by (simp add: readBarcodes_parse_ok)
qed

lemma readBarcodes_returned:
  assumes "ReadBarcodes_call iv' opts \<in> set (snd (readBarcodes ext iv th f ms))"
    and "ReadBarcodes ext iv' opts = Inr barcodes"
  shows "fst (readBarcodes ext iv th f ms) = Inr (push_back_loop ext barcodes [])"
  using assms by (elim readBarcodes_event) (simp add: readBarcodes_parse_ok)

lemma engine_options_fields:
  "tryHarder (engine_options ext th fs ms) = th"
  "tryRotate (engine_options ext th fs ms) = th"
  "tryInvert (engine_options ext th fs ms) = th"
  "tryDownscale (engine_options ext th fs ms) = th"
  "formats (engine_options ext th fs ms) = fs"
  "maxNumberOfSymbols (engine_options ext th fs ms) = ms"
  by (simp_all add: engine_options_def setTryHarder_def setTryRotate_def setTryInvert_def
        setTryDownscale_def setFormats_def setMaxNumberOfSymbols_def)

lemma stub_engine_options:
  "engine_options (stub_extern\<lparr>ReadBarcodes := E\<rparr>) b {s} n = stub_options b s n"
  by (simp add: engine_options_def stub_extern_def stub_options_def setTryHarder_def
        setTryRotate_def setTryInvert_def setTryDownscale_def setFormats_def
        setMaxNumberOfSymbols_def)

lemma stub_readBarcodes:
  "readBarcodes (stub_extern\<lparr>ReadBarcodes := E\<rparr>) iv b s n =
     (case E iv (stub_options b s n) of
        Inl (std_exception what) \<Rightarrow>
          Inr [\<lparr>format = '''', text = '''', bytes = Undefined, error = what,
                position = Position_default, symbologyIdentifier = ''''\<rparr>]
      | Inl unknown_exception \<Rightarrow>
          Inr [\<lparr>format = '''', text = '''', bytes = Undefined, error = ''Unknown error'',
                position = Position_default, symbologyIdentifier = ''''\<rparr>]
      | Inr bs \<Rightarrow> Inr (push_back_loop (stub_extern\<lparr>ReadBarcodes := E\<rparr>) bs []),
      [ReadBarcodes_call iv (stub_options b s n)])"
proof -
  have "BarcodeFormatsFromString (stub_extern\<lparr>ReadBarcodes := E\<rparr>) s = Inr {s}"
    by (simp add: stub_extern_def)
  then show ?thesis
    by (simp add: readBarcodes_parse_ok stub_engine_options)
qed

lemma stub_readBarcodes_plain:
  "readBarcodes stub_extern iv b s n = (Inr [], [ReadBarcodes_call iv (stub_options b s n)])"
proof -
  have "stub_extern = stub_extern\<lparr>ReadBarcodes := \<lambda>iv opts. Inr []\<rparr>"
    by (simp add: stub_extern_def)
  then show ?thesis
    using stub_readBarcodes [of "\<lambda>iv opts. Inr []" iv b s n] by simp
qed

lemma stub_symbols_call:
  "ReadBarcodes_call stub_view (stub_options True ''QRCode'' 8)
     \<in> set (snd (readBarcodes (stub_extern\<lparr>ReadBarcodes := \<lambda>iv opts. Inr stub_symbols\<rparr>)
                   stub_view True ''QRCode'' 8)) \<and>
   ReadBarcodes (stub_extern\<lparr>ReadBarcodes := \<lambda>iv opts. Inr stub_symbols\<rparr>) stub_view
     (stub_options True ''QRCode'' 8) = Inr stub_symbols"
  by (simp add: stub_readBarcodes)

section \<open>Exceptions never leave readBarcodes\<close>

text \<open>
  Claim C1. When the decode engine, called by \<open>readBarcodes\<close>, throws an exception derived
  from \<open>std::exception\<close>, the function returns exactly one record whose error is the
  exception's message, with empty format and text, undefined bytes, the zero position and
  an empty symbology identifier. When the engine throws anything else, the one record's
  error is "Unknown error". Whatever the collaborators do, \<open>readBarcodes\<close> returns a value
  and throws nothing.
\<close>

theorem readBarcodes_converts_exceptions:
  "(ReadBarcodes_call iv' opts \<in> set (snd (readBarcodes ext iv th f ms)) \<and>
      ReadBarcodes ext iv' opts = Inl (std_exception what) \<longrightarrow>
    fst (readBarcodes ext iv th f ms) =
      Inr [\<lparr>format = '''', text = '''', bytes = Undefined, error = what,
            position = Position_default, symbologyIdentifier = ''''\<rparr>]) \<and>
   (ReadBarcodes_call iv' opts \<in> set (snd (readBarcodes ext iv th f ms)) \<and>
      ReadBarcodes ext iv' opts = Inl unknown_exception \<longrightarrow>
    fst (readBarcodes ext iv th f ms) =
      Inr [\<lparr>format = '''', text = '''', bytes = Undefined, error = ''Unknown error'',
            position = Position_default, symbologyIdentifier = ''''\<rparr>]) \<and>
   (\<exists>rs. fst (readBarcodes ext iv th f ms) = Inr rs)"
proof (intro conjI impI)
  assume "ReadBarcodes_call iv' opts \<in> set (snd (readBarcodes ext iv th f ms)) \<and>
      ReadBarcodes ext iv' opts = Inl (std_exception what)"
  then show "fst (readBarcodes ext iv th f ms) =
      Inr [\<lparr>format = '''', text = '''', bytes = Undefined, error = what,
            position = Position_default, symbologyIdentifier = ''''\<rparr>]"
    by (elim conjE readBarcodes_event) (simp add: readBarcodes_parse_ok)
next
  assume "ReadBarcodes_call iv' opts \<in> set (snd (readBarcodes ext iv th f ms)) \<and>
      ReadBarcodes ext iv' opts = Inl unknown_exception"
  then show "fst (readBarcodes ext iv th f ms) =
      Inr [\<lparr>format = '''', text = '''', bytes = Undefined, error = ''Unknown error'',
            position = Position_default, symbologyIdentifier = ''''\<rparr>]"
    by (elim conjE readBarcodes_event) (simp add: readBarcodes_parse_ok)
next
  show "\<exists>rs. fst (readBarcodes ext iv th f ms) = Inr rs"
    by (cases "BarcodeFormatsFromString ext f")
       (simp_all add: readBarcodes_parse_throws readBarcodes_parse_ok
          split: sum.splits exn.splits)
qed

theorem readBarcodes_converts_exceptions_witness:
  "fst (readBarcodes
          (stub_extern\<lparr>ReadBarcodes := \<lambda>iv opts. Inl (std_exception ''bad image'')\<rparr>)
          stub_view True ''QRCode'' 1) =
     Inr [\<lparr>format = '''', text = '''', bytes = Undefined, error = ''bad image'',
           position = Position_default, symbologyIdentifier = ''''\<rparr>] \<and>
   fst (readBarcodes (stub_extern\<lparr>ReadBarcodes := \<lambda>iv opts. Inl unknown_exception\<rparr>)
          stub_view True ''QRCode'' 1) =
     Inr [\<lparr>format = '''', text = '''', bytes = Undefined, error = ''Unknown error'',
           position = Position_default, symbologyIdentifier = ''''\<rparr>]"
proof -
  let ?opts = "stub_options True ''QRCode'' 1"
  let ?typed = "stub_extern\<lparr>ReadBarcodes := \<lambda>iv opts. Inl (std_exception ''bad image'')\<rparr>"
  let ?untyped = "stub_extern\<lparr>ReadBarcodes := \<lambda>iv opts. Inl unknown_exception\<rparr>"
  have a: "ReadBarcodes_call stub_view ?opts
             \<in> set (snd (readBarcodes ?typed stub_view True ''QRCode'' 1)) \<and>
           ReadBarcodes ?typed stub_view ?opts = Inl (std_exception ''bad image'')"
    by (simp add: stub_readBarcodes)
  have b: "ReadBarcodes_call stub_view ?opts
             \<in> set (snd (readBarcodes ?untyped stub_view True ''QRCode'' 1)) \<and>
           ReadBarcodes ?untyped stub_view ?opts = Inl unknown_exception"
    by (simp add: stub_readBarcodes)
  show ?thesis
    using a b
      readBarcodes_converts_exceptions
        [where ext = ?typed and iv = stub_view and iv' = stub_view and opts = ?opts
           and th = True and f = "''QRCode''" and ms = 1 and what = "''bad image''"]
      readBarcodes_converts_exceptions
        [where ext = ?untyped and iv = stub_view and iv' = stub_view and opts = ?opts
           and th = True and f = "''QRCode''" and ms = 1]
    by blast
qed

section \<open>Events and results of the entry points\<close>

lemma readBarcodes_total: "\<exists>rs. fst (readBarcodes ext iv th f ms) = Inr rs"
  by (cases "BarcodeFormatsFromString ext f")
     (simp_all add: readBarcodes_parse_throws readBarcodes_parse_ok
        split: sum.splits exn.splits)

lemma readBarcodesFromImage_null:
  "stbi_load_from_memory ext p n 1 = None \<Longrightarrow>
   readBarcodesFromImage ext p n th f ms =
     (Inr [\<lparr>format = '''', text = '''', bytes = Undefined, error = ''Error loading image'',
            position = Position_default, symbologyIdentifier = ''''\<rparr>],
      [stbi_load_call p n 1])"
  by (simp add: readBarcodesFromImage_def)

lemma readBarcodesFromImage_loaded:
  "stbi_load_from_memory ext p n 1 = Some (buffer, w, h, c) \<Longrightarrow>
   readBarcodesFromImage ext p n th f ms =
     (fst (readBarcodes ext \<lparr>iv_data = buffer, iv_width = w, iv_height = h, iv_format = Lum\<rparr>
             th f ms),
      stbi_load_call p n 1 #
      snd (readBarcodes ext \<lparr>iv_data = buffer, iv_width = w, iv_height = h, iv_format = Lum\<rparr>
             th f ms) @ [stbi_image_free_call buffer])"
  by (simp add: readBarcodesFromImage_def split: prod.splits)

lemma readBarcodesFromImage_event:
  assumes "ReadBarcodes_call iv' opts \<in> set (snd (readBarcodesFromImage ext p n th f ms))"
  obtains buffer w h c where "stbi_load_from_memory ext p n 1 = Some (buffer, w, h, c)"
    and "ReadBarcodes_call iv' opts \<in> set (snd (readBarcodes ext
           \<lparr>iv_data = buffer, iv_width = w, iv_height = h, iv_format = Lum\<rparr> th f ms))"
proof (cases "stbi_load_from_memory ext p n 1")
  case None
  with assms show ?thesis by (simp add: readBarcodesFromImage_null)
next
  case (Some q)
  obtain buffer w h c where q: "q = (buffer, w, h, c)" by (cases q)
  with assms Some that show ?thesis by (simp add: readBarcodesFromImage_loaded)
qed

lemma readBarcodeFromImage_events:
  "snd (readBarcodeFromImage ext p n th f) = snd (readBarcodesFromImage ext p n th f 1)"
  by (simp add: readBarcodeFromImage_def split: prod.splits sum.splits)

lemma readBarcodeFromPixmap_events:
  "snd (readBarcodeFromPixmap ext p w h th f) = snd (readBarcodesFromPixmap ext p w h th f 1)"
  by (simp add: readBarcodeFromPixmap_def split: prod.splits sum.splits)

lemma entry_point_event:
  assumes "ReadBarcodes_call iv' opts \<in>
     set (snd (readBarcodes ext iv th f ms)) \<union>
     set (snd (readBarcodesFromImage ext p n th f ms)) \<union>
     set (snd (readBarcodesFromPixmap ext q w h th f ms))"
  obtains fs where "opts = engine_options ext th fs ms"
  using assms
  by (auto elim!: readBarcodes_event readBarcodesFromImage_event
        simp: readBarcodesFromPixmap_def)

lemma readBarcodesFromImage_total:
  "\<exists>rs. fst (readBarcodesFromImage ext p n th f ms) = Inr rs"
proof (cases "stbi_load_from_memory ext p n 1")
  case None
  then show ?thesis by (simp add: readBarcodesFromImage_null)
next
  case (Some q)
  obtain buffer w h c where "q = (buffer, w, h, c)" by (cases q)
  with Some show ?thesis by (simp add: readBarcodesFromImage_loaded readBarcodes_total)
qed

section \<open>Option normalisation\<close>

text \<open>
  Claim C4. Whenever one of the five functions calls the decode engine, the options of that
  call have \<open>tryHarder\<close>, \<open>tryRotate\<close>, \<open>tryInvert\<close> and \<open>tryDownscale\<close> all equal to
  the caller's \<open>tryHarder\<close> flag, whatever the default-constructed options held.
\<close>

theorem tryHarder_drives_all_flags:
  assumes "ReadBarcodes_call iv' opts \<in>
     set (snd (readBarcodes ext iv th f ms)) \<union>
     set (snd (readBarcodesFromImage ext p n th f ms)) \<union>
     set (snd (readBarcodeFromImage ext p n th f)) \<union>
     set (snd (readBarcodesFromPixmap ext q w h th f ms)) \<union>
     set (snd (readBarcodeFromPixmap ext q w h th f))"
  shows "tryHarder opts = th \<and> tryRotate opts = th \<and> tryInvert opts = th \<and>
         tryDownscale opts = th"
proof -
  from assms consider
      "ReadBarcodes_call iv' opts \<in>
         set (snd (readBarcodes ext iv th f ms)) \<union>
         set (snd (readBarcodesFromImage ext p n th f ms)) \<union>
         set (snd (readBarcodesFromPixmap ext q w h th f ms))"
    | "ReadBarcodes_call iv' opts \<in>
         set (snd (readBarcodes ext iv th f 1)) \<union>
         set (snd (readBarcodesFromImage ext p n th f 1)) \<union>
         set (snd (readBarcodesFromPixmap ext q w h th f 1))"
    by (auto simp: readBarcodeFromImage_events readBarcodeFromPixmap_events)
  then show ?thesis
  proof cases
    case 1
    then obtain fs where "opts = engine_options ext th fs ms" by (rule entry_point_event)
    then show ?thesis by (simp add: engine_options_fields)
  next
    case 2
    then obtain fs where "opts = engine_options ext th fs 1" by (rule entry_point_event)
    then show ?thesis by (simp add: engine_options_fields)
  qed
qed

theorem tryHarder_drives_all_flags_witness:
  "ReadBarcodes_call stub_view (stub_options False ''QRCode'' 1)
     \<in> set (snd (readBarcodes stub_extern stub_view False ''QRCode'' 1)) \<and>
   \<not> tryHarder (stub_options False ''QRCode'' 1) \<and>
   \<not> tryRotate (stub_options False ''QRCode'' 1) \<and>
   \<not> tryInvert (stub_options False ''QRCode'' 1) \<and>
   \<not> tryDownscale (stub_options False ''QRCode'' 1)"
proof -
  have "stub_extern = stub_extern\<lparr>ReadBarcodes := ReadBarcodes stub_extern\<rparr>" by simp
  then have ev: "ReadBarcodes_call stub_view (stub_options False ''QRCode'' 1)
     \<in> set (snd (readBarcodes stub_extern stub_view False ''QRCode'' 1))"
    using stub_readBarcodes [of "ReadBarcodes stub_extern" stub_view False "''QRCode''" 1]
    by simp
  then have "ReadBarcodes_call stub_view (stub_options False ''QRCode'' 1) \<in>
     set (snd (readBarcodes stub_extern stub_view False ''QRCode'' 1)) \<union>
     set (snd (readBarcodesFromImage stub_extern 0 0 False ''QRCode'' 1)) \<union>
     set (snd (readBarcodeFromImage stub_extern 0 0 False ''QRCode'')) \<union>
     set (snd (readBarcodesFromPixmap stub_extern 0 0 0 False ''QRCode'' 1)) \<union>
     set (snd (readBarcodeFromPixmap stub_extern 0 0 0 False ''QRCode''))"
    by simp
  from tryHarder_drives_all_flags [OF this] ev show ?thesis by simp
qed

text \<open>
  Claim C9. Whenever \<open>readBarcodes\<close> or a multi-result entry point calls the decode
  engine, the symbol cap in the options of that call is the caller's \<open>maxSymbols\<close>, bit
  for bit.
\<close>

theorem maxSymbols_forwarded_unchanged:
  assumes "ReadBarcodes_call iv' opts \<in>
     set (snd (readBarcodes ext iv th f ms)) \<union>
     set (snd (readBarcodesFromImage ext p n th f ms)) \<union>
     set (snd (readBarcodesFromPixmap ext q w h th f ms))"
  shows "maxNumberOfSymbols opts = ms"
proof -
  from assms obtain fs where "opts = engine_options ext th fs ms"
    by (rule entry_point_event)
  then show ?thesis by (simp add: engine_options_fields)
qed

theorem maxSymbols_forwarded_unchanged_witness:
  "ReadBarcodes_call \<lparr>iv_data = 4096, iv_width = 10, iv_height = 10, iv_format = RGBA\<rparr>
       (stub_options True ''QRCode'' 1000)
     \<in> set (snd (readBarcodesFromPixmap stub_extern 4096 10 10 True ''QRCode'' 1000)) \<and>
   maxNumberOfSymbols (stub_options True ''QRCode'' 1000) = 1000"
proof -
  let ?iv = "\<lparr>iv_data = 4096, iv_width = 10, iv_height = 10, iv_format = RGBA\<rparr>"
  have ev: "ReadBarcodes_call ?iv (stub_options True ''QRCode'' 1000)
     \<in> set (snd (readBarcodesFromPixmap stub_extern 4096 10 10 True ''QRCode'' 1000))"
    by (simp add: readBarcodesFromPixmap_def stub_readBarcodes_plain)
  then have "ReadBarcodes_call ?iv (stub_options True ''QRCode'' 1000) \<in>
     set (snd (readBarcodes stub_extern stub_view True ''QRCode'' 1000)) \<union>
     set (snd (readBarcodesFromImage stub_extern 0 0 True ''QRCode'' 1000)) \<union>
     set (snd (readBarcodesFromPixmap stub_extern 4096 10 10 True ''QRCode'' 1000))"
    by simp
  from maxSymbols_forwarded_unchanged [OF this] ev show ?thesis by simp
qed

section \<open>Failure to load the compressed image\<close>

text \<open>
  Claim C2. When the image codec, asked for one channel, returns a null pointer for the
  caller's buffer (as it does for a zero-length one), \<open>readBarcodesFromImage\<close> returns
  exactly one record: its error is "Error loading image", so not empty, its format, text and
  symbology identifier are empty, its bytes undefined and its position zero. The result is
  never the empty sequence, and the decode engine is not called.
\<close>

theorem image_load_failure_is_one_record:
  assumes "stbi_load_from_memory ext bufferPtr bufferLength 1 = None"
  shows "\<exists>r. fst (readBarcodesFromImage ext bufferPtr bufferLength th f ms) = Inr [r] \<and>
    error r = ''Error loading image'' \<and> error r \<noteq> '''' \<and>
    format r = '''' \<and> text r = '''' \<and> bytes r = Undefined \<and>
    position r = Position_default \<and> symbologyIdentifier r = '''' \<and>
    (\<forall>iv opts. ReadBarcodes_call iv opts \<notin>
       set (snd (readBarcodesFromImage ext bufferPtr bufferLength th f ms)))"
  using assms by (simp add: readBarcodesFromImage_null)

theorem image_load_failure_is_one_record_witness:
  "stbi_load_from_memory stub_extern 2048 0 1 = None \<and>
   (\<exists>r. fst (readBarcodesFromImage stub_extern 2048 0 True ''QRCode'' 5) = Inr [r] \<and>
        error r = ''Error loading image'' \<and> bytes r = Undefined) \<and>
   (\<forall>iv opts. ReadBarcodes_call iv opts \<notin>
      set (snd (readBarcodesFromImage stub_extern 2048 0 True ''QRCode'' 5)))"
proof -
  have h: "stbi_load_from_memory stub_extern 2048 0 1 = None"
    by (simp add: stub_extern_def)
  from image_load_failure_is_one_record [OF h, of True "''QRCode''" 5] h
  show ?thesis by blast
qed

section \<open>Single-result functions\<close>

text \<open>
  Claim C3. \<open>readBarcodeFromImage\<close> returns the first record of
  \<open>readBarcodesFromImage\<close> called with \<open>maxSymbols = 1\<close> on the same arguments when that
  sequence is not empty, and the default record otherwise; likewise \<open>readBarcodeFromPixmap\<close>
  and \<open>readBarcodesFromPixmap\<close>. The default record has every field empty or zero, the
  error included. \<open>FirstOrDefault\<close> is the helper modelled from the spec.
\<close>

theorem single_result_is_first_or_default:
  "(\<exists>rs. fst (readBarcodesFromImage ext bufferPtr bufferLength th f 1) = Inr rs \<and>
         fst (readBarcodeFromImage ext bufferPtr bufferLength th f) =
           Inr (case rs of [] \<Rightarrow> ReadResult_default | r # _ \<Rightarrow> r)) \<and>
   (\<exists>rs. fst (readBarcodesFromPixmap ext bufferPtr imgWidth imgHeight th f 1) = Inr rs \<and>
         fst (readBarcodeFromPixmap ext bufferPtr imgWidth imgHeight th f) =
           Inr (case rs of [] \<Rightarrow> ReadResult_default | r # _ \<Rightarrow> r)) \<and>
   ReadResult_default =
     \<lparr>format = '''', text = '''', bytes = Undefined, error = '''',
      position = Quadrilateral (PointI 0 0) (PointI 0 0) (PointI 0 0) (PointI 0 0),
      symbologyIdentifier = ''''\<rparr>"
proof (intro conjI)
  obtain rs where rs: "fst (readBarcodesFromImage ext bufferPtr bufferLength th f 1) = Inr rs"
    using readBarcodesFromImage_total by blast
  then have "fst (readBarcodeFromImage ext bufferPtr bufferLength th f) =
           Inr (case rs of [] \<Rightarrow> ReadResult_default | r # _ \<Rightarrow> r)"
    by (cases "readBarcodesFromImage ext bufferPtr bufferLength th f 1")
       (simp add: readBarcodeFromImage_def FirstOrDefault_def)
  with rs show "\<exists>rs. fst (readBarcodesFromImage ext bufferPtr bufferLength th f 1) = Inr rs \<and>
         fst (readBarcodeFromImage ext bufferPtr bufferLength th f) =
           Inr (case rs of [] \<Rightarrow> ReadResult_default | r # _ \<Rightarrow> r)"
    by blast
next
  obtain rs where rs:
    "fst (readBarcodesFromPixmap ext bufferPtr imgWidth imgHeight th f 1) = Inr rs"
    unfolding readBarcodesFromPixmap_def using readBarcodes_total by blast
  then have "fst (readBarcodeFromPixmap ext bufferPtr imgWidth imgHeight th f) =
           Inr (case rs of [] \<Rightarrow> ReadResult_default | r # _ \<Rightarrow> r)"
    by (cases "readBarcodesFromPixmap ext bufferPtr imgWidth imgHeight th f 1")
       (simp add: readBarcodeFromPixmap_def FirstOrDefault_def)
  with rs show "\<exists>rs. fst (readBarcodesFromPixmap ext bufferPtr imgWidth imgHeight th f 1) = Inr rs \<and>
         fst (readBarcodeFromPixmap ext bufferPtr imgWidth imgHeight th f) =
           Inr (case rs of [] \<Rightarrow> ReadResult_default | r # _ \<Rightarrow> r)"
    by blast
next
  show "ReadResult_default =
     \<lparr>format = '''', text = '''', bytes = Undefined, error = '''',
      position = Quadrilateral (PointI 0 0) (PointI 0 0) (PointI 0 0) (PointI 0 0),
      symbologyIdentifier = ''''\<rparr>"
    by (simp add: ReadResult_default_def Position_default_def)
qed

section \<open>Nothing found\<close>

text \<open>
  Claim C7. When the engine call of \<open>readBarcodes\<close>, or of \<open>readBarcodesFromPixmap\<close>,
  returns no symbols, the function returns the empty sequence and no failure record.
\<close>

theorem no_symbols_is_empty_sequence:
  "(ReadBarcodes_call iv' opts \<in> set (snd (readBarcodes ext iv th f ms)) \<and>
      ReadBarcodes ext iv' opts = Inr [] \<longrightarrow>
    fst (readBarcodes ext iv th f ms) = Inr []) \<and>
   (ReadBarcodes_call iv' opts
        \<in> set (snd (readBarcodesFromPixmap ext bufferPtr imgWidth imgHeight th f ms)) \<and>
      ReadBarcodes ext iv' opts = Inr [] \<longrightarrow>
    fst (readBarcodesFromPixmap ext bufferPtr imgWidth imgHeight th f ms) = Inr [])"
proof -
  have *: "fst (readBarcodes ext v th f ms) = Inr []"
    if "ReadBarcodes_call iv' opts \<in> set (snd (readBarcodes ext v th f ms))"
      and "ReadBarcodes ext iv' opts = Inr []" for v
    using that by (elim readBarcodes_event) (simp add: readBarcodes_parse_ok)
  show ?thesis
    using * [of iv]
      * [of "\<lparr>iv_data = bufferPtr, iv_width = imgWidth, iv_height = imgHeight,
              iv_format = RGBA\<rparr>"]
    by (simp add: readBarcodesFromPixmap_def)
qed

theorem no_symbols_is_empty_sequence_witness:
  "fst (readBarcodes stub_extern stub_view False '''' 1) = Inr [] \<and>
   fst (readBarcodesFromPixmap stub_extern 1024 10 10 False '''' 1) = Inr []"
proof -
  have v: "\<lparr>iv_data = 1024, iv_width = 10, iv_height = 10, iv_format = RGBA\<rparr> = stub_view"
    by (simp add: stub_view_def)
  have a: "ReadBarcodes_call stub_view (stub_options False '''' 1)
             \<in> set (snd (readBarcodes stub_extern stub_view False '''' 1)) \<and>
           ReadBarcodes stub_extern stub_view (stub_options False '''' 1) = Inr []"
    by (simp add: stub_readBarcodes_plain) (simp add: stub_extern_def)
  have b: "ReadBarcodes_call stub_view (stub_options False '''' 1)
             \<in> set (snd (readBarcodesFromPixmap stub_extern 1024 10 10 False '''' 1)) \<and>
           ReadBarcodes stub_extern stub_view (stub_options False '''' 1) = Inr []"
    using a by (simp add: readBarcodesFromPixmap_def v)
  show ?thesis
    using a b
      no_symbols_is_empty_sequence
        [where ext = stub_extern and iv = stub_view and iv' = stub_view
           and opts = "stub_options False '''' 1" and th = False and f = "''''" and ms = 1
           and bufferPtr = 1024 and imgWidth = 10 and imgHeight = 10]
    by blast
qed

section \<open>Marshalling of the symbols\<close>

text \<open>
  Claim C6. When the engine call of \<open>readBarcodes\<close> returns a sequence of symbols, the
  result has one record per symbol in the same order. In each record format is the
  format's name, text and symbology identifier are the symbol's, bytes is a
  \<open>Uint8Array\<close> with exactly the symbol's bytes, error is the symbol's error as a string
  and position is the symbol's position, whose entries 0, 1, 2, 3 the binding exposes as
  \<open>topLeft\<close>, \<open>topRight\<close>, \<open>bottomRight\<close>, \<open>bottomLeft\<close>.
\<close>

theorem readBarcodes_transcribes_symbols:
  assumes "ReadBarcodes_call iv' opts \<in> set (snd (readBarcodes ext iv th f ms))"
    and "ReadBarcodes ext iv' opts = Inr barcodes"
  shows "\<exists>rs. fst (readBarcodes ext iv th f ms) = Inr rs \<and> length rs = length barcodes \<and>
    (\<forall>i<length barcodes.
       format (rs ! i) = ToString_format ext (barcode_format (barcodes ! i)) \<and>
       text (rs ! i) = barcode_text (barcodes ! i) \<and>
       bytes (rs ! i) = Uint8Array (barcode_bytes (barcodes ! i)) \<and>
       error (rs ! i) = ToString_error ext (barcode_error (barcodes ! i)) \<and>
       position (rs ! i) = barcode_position (barcodes ! i) \<and>
       topLeft (Position_toJS (position (rs ! i))) =
         Point_toJS (at (barcode_position (barcodes ! i)) index0) \<and>
       topRight (Position_toJS (position (rs ! i))) =
         Point_toJS (at (barcode_position (barcodes ! i)) index1) \<and>
       bottomRight (Position_toJS (position (rs ! i))) =
         Point_toJS (at (barcode_position (barcodes ! i)) index2) \<and>
       bottomLeft (Position_toJS (position (rs ! i))) =
         Point_toJS (at (barcode_position (barcodes ! i)) index3) \<and>
       symbologyIdentifier (rs ! i) = barcode_symbologyIdentifier (barcodes ! i))"
proof -
  let ?rs = "push_back_loop ext barcodes []"
  have res: "fst (readBarcodes ext iv th f ms) = Inr ?rs"
    using assms by (rule readBarcodes_returned)
  have len: "length ?rs = length barcodes"
    by (simp add: push_back_loop_length)
  have nth: "?rs ! i =
     \<lparr>format = ToString_format ext (barcode_format (barcodes ! i)),
      text = barcode_text (barcodes ! i),
      bytes = Uint8Array (barcode_bytes (barcodes ! i)),
      error = ToString_error ext (barcode_error (barcodes ! i)),
      position = barcode_position (barcodes ! i),
      symbologyIdentifier = barcode_symbologyIdentifier (barcodes ! i)\<rparr>"
    if "i < length barcodes" for i
    using push_back_loop_nth [OF that, of ext "[]"] by simp
  show ?thesis
    using res len by (intro exI [of _ ?rs]) (simp add: nth Position_toJS_def)
qed

theorem readBarcodes_transcribes_symbols_witness:
  "\<exists>rs. fst (readBarcodes (stub_extern\<lparr>ReadBarcodes := \<lambda>iv opts. Inr stub_symbols\<rparr>)
               stub_view True ''QRCode'' 8) = Inr rs \<and>
        length rs = 2 \<and>
        format (rs ! 1) = ''QRCode'' \<and> text (rs ! 1) = ''abc'' \<and>
        bytes (rs ! 1) = Uint8Array [0x01, 0x02, 0x03] \<and>
        error (rs ! 1) = '''' \<and>
        topLeft (Position_toJS (position (rs ! 1))) = \<lparr>obj_x = 10, obj_y = 20\<rparr> \<and>
        topRight (Position_toJS (position (rs ! 1))) = \<lparr>obj_x = 30, obj_y = 20\<rparr> \<and>
        bottomRight (Position_toJS (position (rs ! 1))) = \<lparr>obj_x = 30, obj_y = 40\<rparr> \<and>
        bottomLeft (Position_toJS (position (rs ! 1))) = \<lparr>obj_x = 10, obj_y = 40\<rparr> \<and>
        symbologyIdentifier (rs ! 1) = '']Q1''"
proof -
  let ?ext = "stub_extern\<lparr>ReadBarcodes := \<lambda>iv opts. Inr stub_symbols\<rparr>"
  have one: "(1::nat) < length stub_symbols" and two: "length stub_symbols = 2"
    by (simp_all add: stub_symbols_def)
  from readBarcodes_transcribes_symbols
         [OF conjunct1 [OF stub_symbols_call] conjunct2 [OF stub_symbols_call]]
  obtain rs where rs:
    "fst (readBarcodes ?ext stub_view True ''QRCode'' 8) = Inr rs"
    "length rs = length stub_symbols"
    "\<forall>i<length stub_symbols.
       format (rs ! i) = ToString_format ?ext (barcode_format (stub_symbols ! i)) \<and>
       text (rs ! i) = barcode_text (stub_symbols ! i) \<and>
       bytes (rs ! i) = Uint8Array (barcode_bytes (stub_symbols ! i)) \<and>
       error (rs ! i) = ToString_error ?ext (barcode_error (stub_symbols ! i)) \<and>
       position (rs ! i) = barcode_position (stub_symbols ! i) \<and>
       topLeft (Position_toJS (position (rs ! i))) =
         Point_toJS (at (barcode_position (stub_symbols ! i)) index0) \<and>
       topRight (Position_toJS (position (rs ! i))) =
         Point_toJS (at (barcode_position (stub_symbols ! i)) index1) \<and>
       bottomRight (Position_toJS (position (rs ! i))) =
         Point_toJS (at (barcode_position (stub_symbols ! i)) index2) \<and>
       bottomLeft (Position_toJS (position (rs ! i))) =
         Point_toJS (at (barcode_position (stub_symbols ! i)) index3) \<and>
       symbologyIdentifier (rs ! i) = barcode_symbologyIdentifier (stub_symbols ! i)"
    by blast
  from rs(3) one have
    "format (rs ! 1) = ToString_format ?ext (barcode_format (stub_symbols ! 1)) \<and>
       text (rs ! 1) = barcode_text (stub_symbols ! 1) \<and>
       bytes (rs ! 1) = Uint8Array (barcode_bytes (stub_symbols ! 1)) \<and>
       error (rs ! 1) = ToString_error ?ext (barcode_error (stub_symbols ! 1)) \<and>
       position (rs ! 1) = barcode_position (stub_symbols ! 1) \<and>
       topLeft (Position_toJS (position (rs ! 1))) =
         Point_toJS (at (barcode_position (stub_symbols ! 1)) index0) \<and>
       topRight (Position_toJS (position (rs ! 1))) =
         Point_toJS (at (barcode_position (stub_symbols ! 1)) index1) \<and>
       bottomRight (Position_toJS (position (rs ! 1))) =
         Point_toJS (at (barcode_position (stub_symbols ! 1)) index2) \<and>
       bottomLeft (Position_toJS (position (rs ! 1))) =
         Point_toJS (at (barcode_position (stub_symbols ! 1)) index3) \<and>
       symbologyIdentifier (rs ! 1) = barcode_symbologyIdentifier (stub_symbols ! 1)"
    by blast
  then have "format (rs ! 1) = ''QRCode'' \<and> text (rs ! 1) = ''abc'' \<and>
        bytes (rs ! 1) = Uint8Array [0x01, 0x02, 0x03] \<and>
        error (rs ! 1) = '''' \<and>
        topLeft (Position_toJS (position (rs ! 1))) = \<lparr>obj_x = 10, obj_y = 20\<rparr> \<and>
        topRight (Position_toJS (position (rs ! 1))) = \<lparr>obj_x = 30, obj_y = 20\<rparr> \<and>
        bottomRight (Position_toJS (position (rs ! 1))) = \<lparr>obj_x = 30, obj_y = 40\<rparr> \<and>
        bottomLeft (Position_toJS (position (rs ! 1))) = \<lparr>obj_x = 10, obj_y = 40\<rparr> \<and>
        symbologyIdentifier (rs ! 1) = '']Q1''"
    by (simp add: stub_symbols_def stub_extern_def Point_toJS_def Position_toJS_def)
  with rs(1,2) two show ?thesis by auto
qed

section \<open>Errors of single symbols\<close>

text \<open>
  Claim C8. When the engine returns a symbol whose error converts to a non-empty string,
  the result still has one record per symbol: the record at that symbol's place carries
  the error with the symbol's text and bytes, and every other record carries its own
  symbol's error, text and bytes, so a symbol without error keeps an empty error field.
\<close>

theorem symbol_error_stays_with_its_record:
  assumes "ReadBarcodes_call iv' opts \<in> set (snd (readBarcodes ext iv th f ms))"
    and "ReadBarcodes ext iv' opts = Inr barcodes"
    and "i < length barcodes"
    and "ToString_error ext (barcode_error (barcodes ! i)) \<noteq> ''''"
  shows "\<exists>rs. fst (readBarcodes ext iv th f ms) = Inr rs \<and> length rs = length barcodes \<and>
    error (rs ! i) = ToString_error ext (barcode_error (barcodes ! i)) \<and>
    error (rs ! i) \<noteq> '''' \<and>
    text (rs ! i) = barcode_text (barcodes ! i) \<and>
    bytes (rs ! i) = Uint8Array (barcode_bytes (barcodes ! i)) \<and>
    (\<forall>j<length barcodes. j \<noteq> i \<longrightarrow>
       error (rs ! j) = ToString_error ext (barcode_error (barcodes ! j)) \<and>
       text (rs ! j) = barcode_text (barcodes ! j) \<and>
       bytes (rs ! j) = Uint8Array (barcode_bytes (barcodes ! j)))"
proof -
  let ?rs = "push_back_loop ext barcodes []"
  have res: "fst (readBarcodes ext iv th f ms) = Inr ?rs"
    using assms(1,2) by (rule readBarcodes_returned)
  have nth: "?rs ! j =
     \<lparr>format = ToString_format ext (barcode_format (barcodes ! j)),
      text = barcode_text (barcodes ! j),
      bytes = Uint8Array (barcode_bytes (barcodes ! j)),
      error = ToString_error ext (barcode_error (barcodes ! j)),
      position = barcode_position (barcodes ! j),
      symbologyIdentifier = barcode_symbologyIdentifier (barcodes ! j)\<rparr>"
    if "j < length barcodes" for j
    using push_back_loop_nth [OF that, of ext "[]"] by simp
  show ?thesis
    using res assms(3,4)
    by (intro exI [of _ ?rs]) (simp add: nth push_back_loop_length)
qed

theorem symbol_error_stays_with_its_record_witness:
  "\<exists>rs. fst (readBarcodes (stub_extern\<lparr>ReadBarcodes := \<lambda>iv opts. Inr stub_symbols\<rparr>)
               stub_view True ''QRCode'' 8) = Inr rs \<and>
        length rs = 2 \<and>
        error (rs ! 0) = ''ChecksumError'' \<and>
        error (rs ! 1) = '''' \<and> text (rs ! 1) = ''abc''"
proof -
  let ?ext = "stub_extern\<lparr>ReadBarcodes := \<lambda>iv opts. Inr stub_symbols\<rparr>"
  have zero: "(0::nat) < length stub_symbols" and two: "length stub_symbols = 2"
    by (simp_all add: stub_symbols_def)
  have bad: "ToString_error ?ext (barcode_error (stub_symbols ! 0)) \<noteq> ''''"
    by (simp add: stub_extern_def stub_symbols_def)
  from symbol_error_stays_with_its_record
         [OF conjunct1 [OF stub_symbols_call] conjunct2 [OF stub_symbols_call] zero bad]
  obtain rs where rs:
    "fst (readBarcodes ?ext stub_view True ''QRCode'' 8) = Inr rs"
    "length rs = length stub_symbols"
    "error (rs ! 0) = ToString_error ?ext (barcode_error (stub_symbols ! 0))"
    "\<forall>j<length stub_symbols. j \<noteq> 0 \<longrightarrow>
       error (rs ! j) = ToString_error ?ext (barcode_error (stub_symbols ! j)) \<and>
       text (rs ! j) = barcode_text (stub_symbols ! j) \<and>
       bytes (rs ! j) = Uint8Array (barcode_bytes (stub_symbols ! j))"
    by blast
  have "(1::nat) < length stub_symbols" by (simp add: two)
  with rs(4) have "error (rs ! 1) = ToString_error ?ext (barcode_error (stub_symbols ! 1)) \<and>
       text (rs ! 1) = barcode_text (stub_symbols ! 1)"
    by auto
  then have "error (rs ! 1) = '''' \<and> text (rs ! 1) = ''abc''"
    by (simp add: stub_extern_def stub_symbols_def)
  moreover have "error (rs ! 0) = ''ChecksumError''"
    using rs(3) by (simp add: stub_extern_def stub_symbols_def)
  ultimately show ?thesis using rs(1,2) two by auto
qed

section \<open>The format filter\<close>

lemma spec_parser_rejects:
  assumes "f \<noteq> []" and "\<exists>n\<in>set (split_names f). n \<notin> supported"
  shows "BarcodeFormatsFromString (with_spec_parser supported ext) f =
           Inl (std_exception ''InvalidFormatError'')"
  using assms
  by (auto simp: with_spec_parser_def BarcodeFormatsFromString_spec_def list_all_iff)

lemma spec_parser_empty:
  "BarcodeFormatsFromString (with_spec_parser supported ext) [] = Inr supported"
  by (simp add: with_spec_parser_def BarcodeFormatsFromString_spec_def)

text \<open>
  Claim C5, against the parser modelled from the spec. A non-empty format filter with a
  name outside the supported set makes \<open>readBarcodes\<close> and both multi-result entry points
  return exactly one record with a non-empty error, and the decode engine is not called.
  For the empty filter the engine is called with all supported formats selected.
\<close>

theorem unrecognised_format_fails_before_decoding:
  "(f \<noteq> [] \<and> (\<exists>n\<in>set (split_names f). n \<notin> supported) \<longrightarrow>
      (\<exists>r. readBarcodes (with_spec_parser supported ext) iv th f ms = (Inr [r], []) \<and>
           error r \<noteq> '''') \<and>
      (\<exists>r. readBarcodesFromPixmap (with_spec_parser supported ext) p w h th f ms =
             (Inr [r], []) \<and> error r \<noteq> '''') \<and>
      (\<exists>r. fst (readBarcodesFromImage (with_spec_parser supported ext) p n th f ms) =
             Inr [r] \<and> error r \<noteq> '''') \<and>
      (\<forall>iv' opts. ReadBarcodes_call iv' opts \<notin>
         set (snd (readBarcodesFromImage (with_spec_parser supported ext) p n th f ms)))) \<and>
   (\<exists>opts. snd (readBarcodes (with_spec_parser supported ext) iv th [] ms) =
             [ReadBarcodes_call iv opts] \<and> formats opts = supported)"
proof (intro conjI impI)
  let ?ext = "with_spec_parser supported ext"
  show "\<exists>opts. snd (readBarcodes ?ext iv th [] ms) = [ReadBarcodes_call iv opts] \<and>
          formats opts = supported"
    by (simp add: readBarcodes_parse_ok [OF spec_parser_empty] engine_options_fields)
  assume "f \<noteq> [] \<and> (\<exists>n\<in>set (split_names f). n \<notin> supported)"
  then have bad: "BarcodeFormatsFromString ?ext f = Inl (std_exception ''InvalidFormatError'')"
    by (simp add: spec_parser_rejects)
  have rb: "readBarcodes ?ext v th f ms =
     (Inr [\<lparr>format = '''', text = '''', bytes = Undefined, error = ''InvalidFormatError'',
            position = Position_default, symbologyIdentifier = ''''\<rparr>], [])" for v
    by (simp add: readBarcodes_parse_throws [OF bad])
  show "\<exists>r. readBarcodes ?ext iv th f ms = (Inr [r], []) \<and> error r \<noteq> ''''"
    by (simp add: rb)
  show "\<exists>r. readBarcodesFromPixmap ?ext p w h th f ms = (Inr [r], []) \<and> error r \<noteq> ''''"
    by (simp add: readBarcodesFromPixmap_def rb)
  show "\<exists>r. fst (readBarcodesFromImage ?ext p n th f ms) = Inr [r] \<and> error r \<noteq> ''''"
  proof (cases "stbi_load_from_memory ?ext p n 1")
    case None
    then show ?thesis by (simp add: readBarcodesFromImage_null)
  next
    case (Some q)
    obtain buffer w h c where "q = (buffer, w, h, c)" by (cases q)
    with Some show ?thesis by (simp add: readBarcodesFromImage_loaded rb)
  qed
  show "\<forall>iv' opts. ReadBarcodes_call iv' opts \<notin>
         set (snd (readBarcodesFromImage ?ext p n th f ms))"
    by (auto elim!: readBarcodesFromImage_event simp: rb)
qed

theorem unrecognised_format_fails_before_decoding_witness:
  "(\<exists>r. readBarcodes (with_spec_parser {''QRCode'', ''EAN-13''} stub_extern) stub_view True
           ''QRCode,NotARealFormat'' 1 = (Inr [r], []) \<and> error r \<noteq> '''') \<and>
   (\<forall>iv' opts. ReadBarcodes_call iv' opts \<notin>
      set (snd (readBarcodesFromImage (with_spec_parser {''QRCode'', ''EAN-13''} stub_extern)
                  2048 16 True ''QRCode,NotARealFormat'' 1)))"
proof -
  have names: "split_names ''QRCode,NotARealFormat'' = [''QRCode'', ''NotARealFormat'']"
    by simp
  have h: "''QRCode,NotARealFormat'' \<noteq> [] \<and>
     (\<exists>n\<in>set (split_names ''QRCode,NotARealFormat''). n \<notin> {''QRCode'', ''EAN-13''})"
    unfolding names by simp
  from unrecognised_format_fails_before_decoding
         [where f = "''QRCode,NotARealFormat''" and supported = "{''QRCode'', ''EAN-13''}"
            and ext = stub_extern and iv = stub_view and th = True and ms = 1
            and p = 2048 and n = 16] h
  show ?thesis by blast
qed

section \<open>The pixmap entry points\<close>








end
